theory Spec2Isabelle
  imports Main "HOL-Library.Sublist" "HOL-Library.Word"
begin

section \<open>OnionBalance status socket: the data read by the renderer\<close>

text \<open>
  The module \<^verbatim>\<open>onionbalance/status.py\<close> answers every connection on a Unix domain
  socket with a textual summary of \<^verbatim>\<open>config.services\<close>. The objects it reads are
  owned by the rest of OnionBalance; only the attributes the module touches are kept.

  A \<^verbatim>\<open>datetime\<close> object is the record of its calendar fields (the renderer only
  formats them). Python strings are \<open>string\<close>s whose characters are the code points
  below 256, and the bytes written to the socket are \<open>8 word\<close>s. The time of the
  last health check is an epoch, an \<^verbatim>\<open>int\<close> or a \<^verbatim>\<open>float\<close> in Python; the module
  only hands it to \<^verbatim>\<open>datetime.fromtimestamp\<close>, so it is a value of any type \<open>'t\<close>.
\<close>

type_synonym byte = "8 word"

record datetime =
  dt_year :: nat
  dt_month :: nat
  dt_day :: nat
  dt_hour :: nat
  dt_minute :: nat
  dt_second :: nat

text \<open>The values a \<^verbatim>\<open>health_check_conf\<close> dictionary holds.\<close>

datatype pyval = PyNone | PyStr string | PyInt int

record 't Instance =
  i_onion_address :: string
  i_timestamp :: "datetime option"
  i_introduction_points :: "string list"
  i_is_healthy :: "bool option"
  i_last_check_time :: "'t option"

record 't Service =
  s_onion_address :: string
  s_uploaded :: "datetime option"
  s_health_check_conf :: "string \<rightharpoonup> pyval"
  s_instances :: "'t Instance list"

text \<open>
  The exceptions that the modelled code can meet. All of them are subclasses of
  Python's \<^verbatim>\<open>Exception\<close>. \<open>KeyError\<close> carries the key, \<open>NameError\<close> the name,
  \<open>AttributeError\<close> the attribute and \<open>OSError\<close> its \<^verbatim>\<open>errno\<close>; the message texts
  of the others differ between versions of Python and are left out.
\<close>

datatype exn =
    KeyError string
  | TypeError
  | IndexError
  | ValueError
  | OverflowError
  | NameError string
  | AttributeError string
  | OSError nat

fun is_Exception :: "exn \<Rightarrow> bool" where
  "is_Exception (KeyError k) = True"
| "is_Exception TypeError = True"
| "is_Exception IndexError = True"
| "is_Exception ValueError = True"
| "is_Exception OverflowError = True"
| "is_Exception (NameError n) = True"
| "is_Exception (AttributeError a) = True"
| "is_Exception (OSError e) = True"

fun is_OSError :: "exn \<Rightarrow> bool" where
  "is_OSError (OSError e) = True"
| "is_OSError x = False"

fun is_AttributeError :: "exn \<Rightarrow> bool" where
  "is_AttributeError (AttributeError a) = True"
| "is_AttributeError x = False"

section \<open>Library functions the renderer calls\<close>

text \<open>Decimal digits, \<^verbatim>\<open>str(n)\<close> for a natural number, and zero padding to a width.\<close>

definition digit_char :: "nat \<Rightarrow> char" where
  "digit_char d = ''0123456789'' ! (d mod 10)"

fun str_nat :: "nat \<Rightarrow> string" where
  "str_nat n = (if n < 10 then [digit_char n] else str_nat (n div 10) @ [digit_char (n mod 10)])"

declare str_nat.simps [simp del]

definition zero_pad :: "nat \<Rightarrow> nat \<Rightarrow> string" where
  "zero_pad w n = replicate (w - length (str_nat n)) (CHR ''0'') @ str_nat n"

text \<open>
  \<^verbatim>\<open>strftime\<close> for the two formats in the module: \<^verbatim>\<open>"%Y-%m-%d %H:%M:%S"\<close>
  (the local \<^verbatim>\<open>time_format\<close>) and \<^verbatim>\<open>'%H:%M:%S'\<close>. \<^verbatim>\<open>%Y\<close> is the year in decimal
  as the C library prints it, with no padding: a year below 1000 has fewer than four
  digits (\<^verbatim>\<open>datetime(999, 1, 2, 3, 4, 5)\<close> gives \<^verbatim>\<open>999-01-02 03:04:05\<close>). The other
  fields are two digits each.
\<close>

definition strftime_HMS :: "datetime \<Rightarrow> string" where
  "strftime_HMS d =
     zero_pad 2 (dt_hour d) @ '':'' @ zero_pad 2 (dt_minute d) @ '':'' @ zero_pad 2 (dt_second d)"

definition strftime_time_format :: "datetime \<Rightarrow> string" where
  "strftime_time_format d =
     str_nat (dt_year d) @ ''-'' @ zero_pad 2 (dt_month d) @ ''-'' @ zero_pad 2 (dt_day d)
       @ '' '' @ strftime_HMS d"

text \<open>
  \<^verbatim>\<open>datetime.fromtimestamp(x)\<close> asks the platform for the local time of an epoch;
  the platform's conversion is the parameter \<open>localtime\<close>. It raises for an epoch
  it cannot convert (\<^verbatim>\<open>ValueError\<close>, \<^verbatim>\<open>OverflowError\<close> or \<^verbatim>\<open>OSError\<close> when the
  epoch is out of range). The attribute \<^verbatim>\<open>last_check_time\<close> may still be \<^verbatim>\<open>None\<close>,
  and then the call raises \<^verbatim>\<open>TypeError\<close>.
\<close>

definition fromtimestamp :: "('t \<Rightarrow> exn + datetime) \<Rightarrow> 't option \<Rightarrow> exn + datetime" where
  "fromtimestamp localtime x =
     (case x of
        None \<Rightarrow> Inl TypeError
      | Some t \<Rightarrow> localtime t)"

text \<open>\<^verbatim>\<open>sep.join(lines)\<close>: the separator stands between the lines only.\<close>

fun join :: "string \<Rightarrow> string list \<Rightarrow> string" where
  "join sep [] = []"
| "join sep [x] = x"
| "join sep (x # y # ys) = x @ sep @ join sep (y # ys)"

text \<open>
  \<^verbatim>\<open>str.encode('utf-8')\<close> on code points below 256: one byte below 128, two bytes
  from 128 on.
\<close>

definition encode_char :: "char \<Rightarrow> byte list" where
  "encode_char c =
     (let n = (of_char c :: nat)
      in if n < 128 then [of_nat n]
         else [of_nat (192 + n div 64), of_nat (128 + n mod 64)])"

definition encode_utf8 :: "string \<Rightarrow> byte list" where
  "encode_utf8 s = concat (map encode_char s)"

section \<open>\<^verbatim>\<open>StatusSocketHandler.send_status\<close>\<close>

text \<open>
  \<^verbatim>\<open>response[-1] += s\<close> on the Python list \<^verbatim>\<open>response\<close>: the last element is
  replaced by itself followed by \<open>s\<close>; on an empty list the index is out of range.
\<close>

definition append_to_last :: "string list \<Rightarrow> string \<Rightarrow> exn + string list" where
  "append_to_last response s =
     (if response = [] then Inl IndexError
      else Inr (response[length response - 1 := response ! (length response - 1) @ s]))"

text \<open>
  The body of the inner loop (one instance): the line is appended to \<open>response\<close>,
  then, when health checks are configured, the suffix is added to the last line.
\<close>

definition instance_step ::
  "('t \<Rightarrow> exn + datetime) \<Rightarrow> bool \<Rightarrow> string list \<Rightarrow> 't Instance \<Rightarrow> exn + string list" where
  "instance_step localtime healthcheck response0 inst =
     (let response =
            (case i_timestamp inst of
               None \<Rightarrow> response0 @ [''  '' @ i_onion_address inst @ ''.onion [offline]'']
             | Some ts \<Rightarrow>
                 response0 @ [''  '' @ i_onion_address inst @ ''.onion '' @ strftime_time_format ts
                              @ '' '' @ str_nat (length (i_introduction_points inst)) @ '' IPs''])
      in if healthcheck then
           (if i_is_healthy inst = Some True then
              (case fromtimestamp localtime (i_last_check_time inst) of
                 Inl e \<Rightarrow> Inl e
               | Inr ts \<Rightarrow> append_to_last response ('' [up at '' @ strftime_HMS ts @ '']''))
            else if i_is_healthy inst = Some False then
              (case fromtimestamp localtime (i_last_check_time inst) of
                 Inl e \<Rightarrow> Inl e
               | Inr ts \<Rightarrow> append_to_last response ('' [down at '' @ strftime_HMS ts @ '']''))
            else Inr response)
         else Inr response)"

fun instances_loop ::
  "('t \<Rightarrow> exn + datetime) \<Rightarrow> bool \<Rightarrow> string list \<Rightarrow> 't Instance list \<Rightarrow> exn + string list" where
  "instances_loop localtime healthcheck response [] = Inr response"
| "instances_loop localtime healthcheck response (inst # insts) =
     (case instance_step localtime healthcheck response inst of
        Inl e \<Rightarrow> Inl e
      | Inr response' \<Rightarrow> instances_loop localtime healthcheck response' insts)"

text \<open>
  The body of the outer loop (one service). The subscript
  \<^verbatim>\<open>service.health_check_conf['type']\<close> raises \<^verbatim>\<open>KeyError\<close> when the key is missing.
\<close>

definition service_step ::
  "('t \<Rightarrow> exn + datetime) \<Rightarrow> string list \<Rightarrow> 't Service \<Rightarrow> exn + string list" where
  "service_step localtime response0 svc =
     (let service_timestamp =
            (case s_uploaded svc of
               Some up \<Rightarrow> strftime_time_format up
             | None \<Rightarrow> ''[not uploaded]'');
          response = response0 @ [s_onion_address svc @ ''.onion '' @ service_timestamp]
      in case s_health_check_conf svc ''type'' of
           None \<Rightarrow> Inl (KeyError ''type'')
         | Some ty \<Rightarrow> instances_loop localtime (ty \<noteq> PyNone) response (s_instances svc))"

fun services_loop ::
  "('t \<Rightarrow> exn + datetime) \<Rightarrow> string list \<Rightarrow> 't Service list \<Rightarrow> exn + string list" where
  "services_loop localtime response [] = Inr response"
| "services_loop localtime response (svc # svcs) =
     (case service_step localtime response svc of
        Inl e \<Rightarrow> Inl e
      | Inr response' \<Rightarrow> services_loop localtime response' svcs)"

text \<open>
  Everything \<^verbatim>\<open>send_status\<close> does before the write: build \<open>response\<close>, append the
  empty string, join with newlines and encode.
\<close>

definition render :: "('t \<Rightarrow> exn + datetime) \<Rightarrow> 't Service list \<Rightarrow> exn + byte list" where
  "render localtime services =
     (case services_loop localtime [] services of
        Inl e \<Rightarrow> Inl e
      | Inr response \<Rightarrow> Inr (encode_utf8 (join [CHR 0x0A] (response @ ['''']))))"

text \<open>
  The logger is the list of the records it has been given: level, message and the
  values substituted into (or attached to) the message.
\<close>

datatype level = DEBUG | INFO | WARNING | ERROR

datatype log_arg = ArgStr string | ArgExn exn

datatype log_record = LogRecord level string "log_arg list"

text \<open>
  What a handler works on: the global \<^verbatim>\<open>config.services\<close>, its own connection
  \<^verbatim>\<open>self.request\<close> (of any type \<open>'c\<close>) and the logger. The socket's
  \<^verbatim>\<open>sendall\<close> is a parameter: it returns the connection after the write and
  \<open>Some errno\<close> when it raises \<^verbatim>\<open>OSError\<close>.
\<close>

record ('t, 'c) handler_state =
  hs_services :: "'t Service list"
  hs_request :: 'c
  hs_log :: "log_record list"

definition send_status ::
  "('t \<Rightarrow> exn + datetime) \<Rightarrow> (byte list \<Rightarrow> 'c \<Rightarrow> nat option \<times> 'c) \<Rightarrow> ('t, 'c) handler_state
     \<Rightarrow> (exn + unit) \<times> ('t, 'c) handler_state" where
  "send_status localtime sendall st =
     (case render localtime (hs_services st) of
        Inl e \<Rightarrow> (Inl e, st)
      | Inr data \<Rightarrow>
          (case sendall data (hs_request st) of
             (None, c) \<Rightarrow> (Inr (), st\<lparr>hs_request := c\<rparr>)
           | (Some errno, c) \<Rightarrow> (Inl (OSError errno), st\<lparr>hs_request := c\<rparr>)))"

section \<open>\<^verbatim>\<open>StatusSocketHandler.handle\<close>\<close>

definition handle ::
  "('t \<Rightarrow> exn + datetime) \<Rightarrow> (byte list \<Rightarrow> 'c \<Rightarrow> nat option \<times> 'c) \<Rightarrow> ('t, 'c) handler_state
     \<Rightarrow> (exn + unit) \<times> ('t, 'c) handler_state" where
  "handle localtime sendall st =
     (case send_status localtime sendall st of
        (Inr u, st') \<Rightarrow> (Inr (), st')
      | (Inl e, st') \<Rightarrow>
          (if is_Exception e
           then (Inr (), st'\<lparr>hs_log := hs_log st' @
                              [LogRecord WARNING ''Error returning status: %s'' [ArgExn e]]\<rparr>)
           else (Inl e, st')))"

section \<open>\<^verbatim>\<open>StatusSocket\<close>: the server object\<close>

text \<open>
  The operating system is a parameter: a world of any type \<open>'w\<close> and the three
  calls the class makes on it. Each returns the world after the call and \<open>Some errno\<close>
  when it raises \<^verbatim>\<open>OSError\<close>. \<open>server_bind\<close> stands for the constructor
  \<^verbatim>\<open>ThreadingSocketServer(path, StatusSocketHandler)\<close>, which creates the socket,
  binds it to the path and listens; \<open>socket_close\<close> for \<^verbatim>\<open>server_close()\<close>.
\<close>

record 'w os_calls =
  os_unlink :: "string \<Rightarrow> 'w \<Rightarrow> nat option \<times> 'w"
  server_bind :: "string \<Rightarrow> 'w \<Rightarrow> nat option \<times> 'w"
  socket_close :: "string \<Rightarrow> 'w \<Rightarrow> nat option \<times> 'w"

definition ENOENT :: nat where
  "ENOENT = 2"

record Server =
  srv_address :: string
  srv_serving :: bool
  srv_closed :: bool

text \<open>
  The attributes of a \<^verbatim>\<open>StatusSocket\<close>; \<open>server = None\<close> is the object on which
  the attribute \<^verbatim>\<open>server\<close> has never been set.
\<close>

record StatusSocket =
  unix_socket_filename :: string
  server :: "Server option"

record Config =
  STATUS_SOCKET_LOCATION :: string

record 'w sys =
  sys_os :: 'w
  sys_log :: "log_record list"

definition cleanup_socket_file ::
  "'w os_calls \<Rightarrow> StatusSocket \<Rightarrow> 'w sys \<Rightarrow> (exn + unit) \<times> 'w sys" where
  "cleanup_socket_file os self st =
     (case os_unlink os (unix_socket_filename self) (sys_os st) of
        (None, w) \<Rightarrow> (Inr (), st\<lparr>sys_os := w\<rparr>)
      | (Some errno, w) \<Rightarrow>
          (if errno \<noteq> ENOENT then (Inl (OSError errno), st\<lparr>sys_os := w\<rparr>)
           else (Inr (), st\<lparr>sys_os := w\<rparr>)))"

text \<open>
  The names that can be read inside \<^verbatim>\<open>__init__\<close>: its parameters and local
  variable, and the names bound at the top level of the module. Reading any other
  name (none of those used is a builtin) raises \<^verbatim>\<open>NameError\<close>.
\<close>

definition names_in_scope :: "string list" where
  "names_in_scope =
     [''self'', ''config'', ''server_thread'',
      ''datetime'', ''os'', ''errno'', ''threading'', ''socket'',
      ''BaseRequestHandler'', ''ThreadingMixIn'', ''UnixStreamServer'',
      ''log'', ''logger'',
      ''StatusSocketHandler'', ''ThreadingSocketServer'', ''StatusSocket'']"

definition load_name :: "string \<Rightarrow> exn + unit" where
  "load_name n = (if n \<in> set names_in_scope then Inr () else Inl (NameError n))"

text \<open>
  The \<^verbatim>\<open>try\<close> block of \<^verbatim>\<open>__init__\<close>: build the server, store it in
  \<^verbatim>\<open>self.server\<close>, start the thread that runs \<^verbatim>\<open>serve_forever\<close>.
\<close>

definition init_try ::
  "'w os_calls \<Rightarrow> StatusSocket \<Rightarrow> 'w sys \<Rightarrow> (exn + unit) \<times> StatusSocket \<times> 'w sys" where
  "init_try os self st =
     (case server_bind os (unix_socket_filename self) (sys_os st) of
        (Some errno, w) \<Rightarrow> (Inl (OSError errno), self, st\<lparr>sys_os := w\<rparr>)
      | (None, w) \<Rightarrow>
          (Inr (),
           self\<lparr>server := Some \<lparr>srv_address = unix_socket_filename self,
                                 srv_serving = True, srv_closed = False\<rparr>\<rparr>,
           st\<lparr>sys_os := w\<rparr>))"

text \<open>
  \<^verbatim>\<open>__init__\<close>. The handler of \<^verbatim>\<open>except (OSError, socket.error)\<close> evaluates the
  arguments of \<^verbatim>\<open>logger.error\<close> first, among them the name
  \<^verbatim>\<open>status_socket_location\<close>. The result is the constructed object, or the exception
  that leaves the constructor.
\<close>

definition init ::
  "'w os_calls \<Rightarrow> Config \<Rightarrow> 'w sys \<Rightarrow> (exn + StatusSocket) \<times> 'w sys" where
  "init os config st0 =
     (let self = \<lparr>unix_socket_filename = STATUS_SOCKET_LOCATION config, server = None\<rparr>
      in case cleanup_socket_file os self st0 of
           (Inl e, st1) \<Rightarrow> (Inl e, st1)
         | (Inr u, st1) \<Rightarrow>
             (let st2 = st1\<lparr>sys_log := sys_log st1 @
                            [LogRecord DEBUG ''Creating status socket at %s''
                               [ArgStr (unix_socket_filename self)]]\<rparr>
              in case init_try os self st2 of
                   (Inr u, self', st3) \<Rightarrow> (Inr self', st3)
                 | (Inl e, self', st3) \<Rightarrow>
                     (if is_OSError e then
                        (case load_name ''status_socket_location'' of
                           Inl e' \<Rightarrow> (Inl e', st3)
                         | Inr v \<Rightarrow>
                             (Inr self',
                              st3\<lparr>sys_log := sys_log st3 @
                                    [LogRecord ERROR
                                       (''Could not start status socket at %s. Does the path ''
                                          @ ''exist? Do you have permission?'')
                                       [ArgStr ''status_socket_location'']]\<rparr>))
                      else (Inl e, st3))))"

text \<open>
  The \<^verbatim>\<open>try\<close> block of \<^verbatim>\<open>close\<close>. Reading \<^verbatim>\<open>self.server\<close> on an object
  without that attribute raises \<^verbatim>\<open>AttributeError\<close>; \<^verbatim>\<open>shutdown()\<close> stops the
  serving loop; \<^verbatim>\<open>server_close()\<close> closes the listening socket.
\<close>

definition close_try ::
  "'w os_calls \<Rightarrow> StatusSocket \<Rightarrow> 'w sys \<Rightarrow> (exn + unit) \<times> StatusSocket \<times> 'w sys" where
  "close_try os self st =
     (case server self of
        None \<Rightarrow> (Inl (AttributeError ''server''), self, st)
      | Some srv \<Rightarrow>
          (let self1 = self\<lparr>server := Some (srv\<lparr>srv_serving := False\<rparr>)\<rparr>
           in case socket_close os (srv_address srv) (sys_os st) of
                (Some errno, w) \<Rightarrow> (Inl (OSError errno), self1, st\<lparr>sys_os := w\<rparr>)
              | (None, w) \<Rightarrow>
                  (let self2 = self\<lparr>server := Some (srv\<lparr>srv_serving := False,
                                                           srv_closed := True\<rparr>)\<rparr>
                   in case cleanup_socket_file os self2 (st\<lparr>sys_os := w\<rparr>) of
                        (r, st') \<Rightarrow> (r, self2, st'))))"

definition close ::
  "'w os_calls \<Rightarrow> StatusSocket \<Rightarrow> 'w sys \<Rightarrow> (exn + unit) \<times> StatusSocket \<times> 'w sys" where
  "close os self st =
     (case close_try os self st of
        (Inr u, self', st') \<Rightarrow> (Inr (), self', st')
      | (Inl e, self', st') \<Rightarrow>
          (if is_AttributeError e then (Inr (), self', st')
           else if is_OSError e then
             (Inr (), self',
              st'\<lparr>sys_log := sys_log st' @
                    [LogRecord ERROR ''Error when removing the status socket'' [ArgExn e]]\<rparr>)
           else (Inl e, self', st')))"

section \<open>The rendered lines, as the description of the report states them\<close>

text \<open>
  The line of an instance before any health suffix, the health suffix of an instance
  of a service whose health checks are (or are not) configured, and the line of a
  service. The loops above are compared with these.
\<close>

definition instance_line :: "'t Instance \<Rightarrow> string" where
  "instance_line inst =
     (case i_timestamp inst of
        None \<Rightarrow> ''  '' @ i_onion_address inst @ ''.onion [offline]''
      | Some ts \<Rightarrow>
          ''  '' @ i_onion_address inst @ ''.onion '' @ strftime_time_format ts @ '' ''
            @ str_nat (length (i_introduction_points inst)) @ '' IPs'')"

definition health_suffix :: "('t \<Rightarrow> exn + datetime) \<Rightarrow> bool \<Rightarrow> 't Instance \<Rightarrow> string" where
  "health_suffix localtime healthcheck inst =
     (case (healthcheck, i_is_healthy inst, fromtimestamp localtime (i_last_check_time inst)) of
        (True, Some True, Inr d) \<Rightarrow> '' [up at '' @ strftime_HMS d @ '']''
      | (True, Some False, Inr d) \<Rightarrow> '' [down at '' @ strftime_HMS d @ '']''
      | _ \<Rightarrow> [])"

definition service_line :: "'t Service \<Rightarrow> string" where
  "service_line svc =
     s_onion_address svc @ ''.onion '' @
       (case s_uploaded svc of
          None \<Rightarrow> ''[not uploaded]''
        | Some up \<Rightarrow> strftime_time_format up)"

text \<open>
  Whether the health-check kind of a service is configured, and the block of lines of
  one service: its own line, then one line per instance, in order.
\<close>

definition healthcheck_enabled :: "'t Service \<Rightarrow> bool" where
  "healthcheck_enabled svc =
     (case s_health_check_conf svc ''type'' of None \<Rightarrow> False | Some ty \<Rightarrow> ty \<noteq> PyNone)"

definition service_block :: "('t \<Rightarrow> exn + datetime) \<Rightarrow> 't Service \<Rightarrow> string list" where
  "service_block localtime svc =
     service_line svc #
       map (\<lambda>i. instance_line i @ health_suffix localtime (healthcheck_enabled svc) i)
         (s_instances svc)"

text \<open>The ranges of the fields of a \<^verbatim>\<open>datetime\<close> object.\<close>

definition valid_datetime :: "datetime \<Rightarrow> bool" where
  "valid_datetime d \<longleftrightarrow>
     1 \<le> dt_year d \<and> dt_year d \<le> 9999 \<and> 1 \<le> dt_month d \<and> dt_month d \<le> 12 \<and>
     1 \<le> dt_day d \<and> dt_day d \<le> 31 \<and> dt_hour d < 24 \<and> dt_minute d < 60 \<and> dt_second d < 60"

text \<open>
  The pattern \<^verbatim>\<open>YYYY-MM-DD HH:MM:SS\<close>: nineteen characters, digits in the places of
  the letters and the separators between them.
\<close>

definition is_digit :: "char \<Rightarrow> bool" where
  "is_digit c \<longleftrightarrow> c \<in> set ''0123456789''"

definition is_YmdHMS :: "string \<Rightarrow> bool" where
  "is_YmdHMS s \<longleftrightarrow>
     length s = 19 \<and>
     list_all is_digit
       (take 4 s @ take 2 (drop 5 s) @ take 2 (drop 8 s) @ take 2 (drop 11 s)
          @ take 2 (drop 14 s) @ take 2 (drop 17 s)) \<and>
     [s ! 4, s ! 7, s ! 10, s ! 13, s ! 16] = ''-- ::''"

section \<open>A sample platform\<close>

text \<open>
  One concrete platform on which the functions above can be run: a clock in the UTC
  time zone over integer epochs, which raises \<^verbatim>\<open>ValueError\<close> outside the years 1 to
  9999, a connection that records what is written to it and one whose peer has gone,
  and a small file system.
\<close>

definition civil_from_days :: "int \<Rightarrow> int \<times> nat \<times> nat" where
  "civil_from_days z0 =
     (let z = z0 + 719468;
          era = z div 146097;
          doe = z mod 146097;
          yoe = (doe - doe div 1460 + doe div 36524 - doe div 146096) div 365;
          doy = doe - (365 * yoe + yoe div 4 - yoe div 100);
          mp = (5 * doy + 2) div 153;
          d = doy - (153 * mp + 2) div 5 + 1;
          m = (if mp < 10 then mp + 3 else mp - 9);
          y = yoe + era * 400 + (if m \<le> 2 then 1 else 0)
      in (y, nat m, nat d))"

definition utc_localtime :: "int \<Rightarrow> exn + datetime" where
  "utc_localtime t =
     (case civil_from_days (t div 86400) of
        (y, m, d) \<Rightarrow>
          if y < 1 \<or> 9999 < y then Inl ValueError
          else Inr \<lparr>dt_year = nat y, dt_month = m, dt_day = d,
                    dt_hour = nat ((t mod 86400) div 3600),
                    dt_minute = nat ((t mod 3600) div 60),
                    dt_second = nat (t mod 60)\<rparr>)"

definition recording_sendall :: "byte list \<Rightarrow> byte list \<Rightarrow> nat option \<times> byte list" where
  "recording_sendall data c = (None, c @ data)"

definition EPIPE :: nat where
  "EPIPE = 32"

definition broken_sendall :: "byte list \<Rightarrow> byte list \<Rightarrow> nat option \<times> byte list" where
  "broken_sendall data c = (Some EPIPE, c)"

definition EACCES :: nat where
  "EACCES = 13"

definition EADDRINUSE :: nat where
  "EADDRINUSE = 98"

text \<open>
  The sample file system: the files that exist, each with the flag whether it may be
  removed, and the directories in which a socket can be created.
\<close>

record sample_world =
  sw_files :: "(string \<times> bool) list"
  sw_dirs :: "string list"

definition dirname :: "string \<Rightarrow> string" where
  "dirname p = rev (drop 1 (dropWhile (\<lambda>c. c \<noteq> CHR ''/'') (rev p)))"

definition sample_unlink :: "string \<Rightarrow> sample_world \<Rightarrow> nat option \<times> sample_world" where
  "sample_unlink p w =
     (case map_of (sw_files w) p of
        None \<Rightarrow> (Some ENOENT, w)
      | Some removable \<Rightarrow>
          (if removable then (None, w\<lparr>sw_files := filter (\<lambda>f. fst f \<noteq> p) (sw_files w)\<rparr>)
           else (Some EACCES, w)))"

definition sample_bind :: "string \<Rightarrow> sample_world \<Rightarrow> nat option \<times> sample_world" where
  "sample_bind p w =
     (if dirname p \<notin> set (sw_dirs w) then (Some ENOENT, w)
      else if map_of (sw_files w) p \<noteq> None then (Some EADDRINUSE, w)
      else (None, w\<lparr>sw_files := (p, True) # sw_files w\<rparr>))"

definition sample_close :: "string \<Rightarrow> sample_world \<Rightarrow> nat option \<times> sample_world" where
  "sample_close p w = (None, w)"

definition sample_os :: "sample_world os_calls" where
  "sample_os = \<lparr>os_unlink = sample_unlink, server_bind = sample_bind, socket_close = sample_close\<rparr>"

text \<open>Sample objects of the supervising process.\<close>

definition tcp_conf :: "string \<rightharpoonup> pyval" where
  "tcp_conf = [''type'' \<mapsto> PyStr ''tcp'']"

definition no_check_conf :: "string \<rightharpoonup> pyval" where
  "no_check_conf = [''type'' \<mapsto> PyNone]"

definition offline_healthy_instance :: "int Instance" where
  "offline_healthy_instance =
     \<lparr>i_onion_address = ''def'', i_timestamp = None, i_introduction_points = [],
      i_is_healthy = Some True, i_last_check_time = Some 1462100702\<rparr>"

text \<open>
  The service of the documented scenario: \<^verbatim>\<open>abc.onion\<close>, uploaded at
  2016-05-01 11:08:56, with the one instance \<^verbatim>\<open>def.onion\<close>, refreshed at
  2016-05-01 11:00:00 and healthy; the health-check configuration, the introduction
  points and the epoch of the last check are left open.
\<close>

definition scenario_service :: "(string \<rightharpoonup> pyval) \<Rightarrow> string list \<Rightarrow> 't \<Rightarrow> 't Service" where
  "scenario_service conf ips t =
     \<lparr>s_onion_address = ''abc'',
      s_uploaded = Some \<lparr>dt_year = 2016, dt_month = 5, dt_day = 1,
                          dt_hour = 11, dt_minute = 8, dt_second = 56\<rparr>,
      s_health_check_conf = conf,
      s_instances =
        [\<lparr>i_onion_address = ''def'',
          i_timestamp = Some \<lparr>dt_year = 2016, dt_month = 5, dt_day = 1,
                               dt_hour = 11, dt_minute = 0, dt_second = 0\<rparr>,
          i_introduction_points = ips,
          i_is_healthy = Some True,
          i_last_check_time = Some t\<rparr>]\<rparr>"

definition offline_service :: "int Service" where
  "offline_service =
     \<lparr>s_onion_address = ''abc'', s_uploaded = None, s_health_check_conf = tcp_conf,
      s_instances = [offline_healthy_instance]\<rparr>"

definition offline_unchecked_service :: "int Service" where
  "offline_unchecked_service =
     \<lparr>s_onion_address = ''abc'', s_uploaded = None, s_health_check_conf = no_check_conf,
      s_instances = [offline_healthy_instance]\<rparr>"

definition sample_datetime :: datetime where
  "sample_datetime = \<lparr>dt_year = 2016, dt_month = 5, dt_day = 1,
                       dt_hour = 11, dt_minute = 5, dt_second = 2\<rparr>"

text \<open>A service uploaded in the year 999, with no instances.\<close>

definition early_service :: "int Service" where
  "early_service =
     \<lparr>s_onion_address = ''abc'',
      s_uploaded = Some \<lparr>dt_year = 999, dt_month = 1, dt_day = 2,
                          dt_hour = 3, dt_minute = 4, dt_second = 5\<rparr>,
      s_health_check_conf = no_check_conf,
      s_instances = []\<rparr>"

text \<open>A service whose \<^verbatim>\<open>health_check_conf\<close> has no key \<^verbatim>\<open>'type'\<close>.\<close>

definition malformed_service :: "int Service" where
  "malformed_service =
     \<lparr>s_onion_address = ''abc'', s_uploaded = None, s_health_check_conf = Map.empty,
      s_instances = []\<rparr>"

definition sample_handler_state :: "int Service list \<Rightarrow> (int, byte list) handler_state" where
  "sample_handler_state svcs = \<lparr>hs_services = svcs, hs_request = [], hs_log = []\<rparr>"

definition sample_sys :: "(string \<times> bool) list \<Rightarrow> sample_world sys" where
  "sample_sys files = \<lparr>sys_os = \<lparr>sw_files = files, sw_dirs = [''/var/run/onionbalance'']\<rparr>,
                        sys_log = []\<rparr>"

definition sample_config :: Config where
  "sample_config = \<lparr>STATUS_SOCKET_LOCATION = ''/var/run/onionbalance/control''\<rparr>"

definition sample_status_socket :: StatusSocket where
  "sample_status_socket =
     \<lparr>unix_socket_filename = ''/var/run/onionbalance/control'',
      server = Some \<lparr>srv_address = ''/var/run/onionbalance/control'',
                      srv_serving = True, srv_closed = False\<rparr>\<rparr>"

section \<open>The loops produce the described lines\<close>

lemma append_to_last_snoc: "append_to_last (xs @ [x]) s = Inr (xs @ [x @ s])"
  by (simp add: append_to_last_def)

text \<open>
  One pass of the inner loop either fails in \<^verbatim>\<open>fromtimestamp\<close> or appends a
  single line: the instance's line followed by its health suffix.
\<close>

lemma instance_step_eq:
  "instance_step lt hc resp i =
     (if hc \<and> i_is_healthy i \<noteq> None
      then (case fromtimestamp lt (i_last_check_time i) of
              Inl e \<Rightarrow> Inl e
            | Inr d \<Rightarrow> Inr (resp @ [instance_line i @ health_suffix lt hc i]))
      else Inr (resp @ [instance_line i @ health_suffix lt hc i]))"
proof -
  have snoc: "\<And>x s. append_to_last (resp @ [x]) s = Inr (resp @ [x @ s])"
    by (rule append_to_last_snoc)
  show ?thesis
    by (cases "i_timestamp i"; cases "fromtimestamp lt (i_last_check_time i)";
        cases "i_is_healthy i"; cases hc)
       (auto simp: instance_step_def instance_line_def health_suffix_def snoc Let_def)
qed

lemma instances_loop_Inr:
  "instances_loop lt hc resp insts = Inr r \<Longrightarrow>
     r = resp @ map (\<lambda>i. instance_line i @ health_suffix lt hc i) insts \<and>
     (\<forall>i \<in> set insts. hc \<and> i_is_healthy i \<noteq> None \<longrightarrow>
        (\<exists>d. fromtimestamp lt (i_last_check_time i) = Inr d))"
proof (induction insts arbitrary: resp)
  case Nil
  then show ?case by simp
next
  case (Cons i insts)
  from Cons.prems have ok: "hc \<and> i_is_healthy i \<noteq> None \<longrightarrow>
      (\<exists>d. fromtimestamp lt (i_last_check_time i) = Inr d)"
    by (cases "fromtimestamp lt (i_last_check_time i)")
       (auto simp: instance_step_eq split: if_splits)
  with Cons.prems have
    "instances_loop lt hc (resp @ [instance_line i @ health_suffix lt hc i]) insts = Inr r"
    by (auto simp: instance_step_eq split: if_splits)
  from Cons.IH [OF this] ok show ?case by auto
qed

lemma service_step_Inr:
  assumes "service_step lt resp svc = Inr r"
  shows "\<exists>ty. s_health_check_conf svc ''type'' = Some ty \<and>
           r = resp @ service_line svc #
                 map (\<lambda>i. instance_line i @ health_suffix lt (ty \<noteq> PyNone) i) (s_instances svc) \<and>
           (\<forall>i \<in> set (s_instances svc).
              ty \<noteq> PyNone \<and> i_is_healthy i \<noteq> None \<longrightarrow>
                (\<exists>d. fromtimestamp lt (i_last_check_time i) = Inr d))"
proof (cases "s_health_check_conf svc ''type''")
  case None
  with assms show ?thesis by (simp add: service_step_def)
next
  case (Some ty)
  with assms have
    "instances_loop lt (ty \<noteq> PyNone) (resp @ [service_line svc]) (s_instances svc) = Inr r"
    by (simp add: service_step_def service_line_def split: option.splits)
  from instances_loop_Inr [OF this] Some show ?thesis by simp
qed

section \<open>No services\<close>

text \<open>
  C2. With no services \<open>response\<close> is the list holding the empty string alone, and
  joining a single element yields that element: the encoded result has no byte at
  all, for every platform clock.
\<close>

theorem render_no_services: "render localtime [] = Inr []"
  by (simp add: render_def encode_utf8_def)

text \<open>
  C2, as stated: the result for no services would be the single newline byte. On the
  sample clock it is the empty byte string instead.
\<close>

theorem render_no_services_not_newline:
  "render utc_localtime [] = Inr [] \<and> render utc_localtime [] \<noteq> Inr [0x0A]"
  by (simp add: render_def encode_utf8_def)

section \<open>The shape of the formatted times\<close>

lemma digit_char_mod: "digit_char (d mod 10) = digit_char d"
  by (simp add: digit_char_def)

lemma digit_char_0: "digit_char 0 = CHR ''0''"
  by (simp add: digit_char_def)

lemma str_nat_1: "n < 10 \<Longrightarrow> str_nat n = [digit_char n]"
  by (simp add: str_nat.simps)

lemma str_nat_2: "10 \<le> n \<Longrightarrow> n < 100 \<Longrightarrow> str_nat n = [digit_char (n div 10), digit_char n]"
  by (subst str_nat.simps) (simp add: str_nat_1 digit_char_mod)

lemma str_nat_3: "100 \<le> n \<Longrightarrow> n < 1000 \<Longrightarrow>
    str_nat n = [digit_char (n div 100), digit_char (n div 10), digit_char n]"
  by (subst str_nat.simps) (simp add: str_nat_2 digit_char_mod div_mult2_eq [symmetric])

lemma str_nat_4: "1000 \<le> n \<Longrightarrow> n < 10000 \<Longrightarrow>
    str_nat n = [digit_char (n div 1000), digit_char (n div 100), digit_char (n div 10), digit_char n]"
  by (subst str_nat.simps) (simp add: str_nat_3 digit_char_mod div_mult2_eq [symmetric])

lemma zero_pad_2: "n < 100 \<Longrightarrow> zero_pad 2 n = [digit_char (n div 10), digit_char n]"
  by (cases "n < 10") (simp_all add: zero_pad_def str_nat_1 str_nat_2 digit_char_0)

lemma is_digit_digit_char: "is_digit (digit_char n)"
  unfolding is_digit_def digit_char_def by (rule nth_mem) simp

lemma strftime_HMS_shape:
  "dt_hour d < 24 \<Longrightarrow> dt_minute d < 60 \<Longrightarrow> dt_second d < 60 \<Longrightarrow>
   strftime_HMS d =
     [digit_char (dt_hour d div 10), digit_char (dt_hour d), CHR '':'',
      digit_char (dt_minute d div 10), digit_char (dt_minute d), CHR '':'',
      digit_char (dt_second d div 10), digit_char (dt_second d)]"
  by (simp add: strftime_HMS_def zero_pad_2)

lemma strftime_time_format_tail:
  "valid_datetime d \<Longrightarrow>
   strftime_time_format d =
     str_nat (dt_year d) @
     [CHR ''-'', digit_char (dt_month d div 10), digit_char (dt_month d), CHR ''-'',
      digit_char (dt_day d div 10), digit_char (dt_day d), CHR '' '',
      digit_char (dt_hour d div 10), digit_char (dt_hour d), CHR '':'',
      digit_char (dt_minute d div 10), digit_char (dt_minute d), CHR '':'',
      digit_char (dt_second d div 10), digit_char (dt_second d)]"
  by (simp add: strftime_time_format_def valid_datetime_def zero_pad_2 strftime_HMS_shape)

lemma strftime_time_format_shape:
  "valid_datetime d \<Longrightarrow> 1000 \<le> dt_year d \<Longrightarrow>
   strftime_time_format d =
     [digit_char (dt_year d div 1000), digit_char (dt_year d div 100),
      digit_char (dt_year d div 10), digit_char (dt_year d), CHR ''-'',
      digit_char (dt_month d div 10), digit_char (dt_month d), CHR ''-'',
      digit_char (dt_day d div 10), digit_char (dt_day d), CHR '' '',
      digit_char (dt_hour d div 10), digit_char (dt_hour d), CHR '':'',
      digit_char (dt_minute d div 10), digit_char (dt_minute d), CHR '':'',
      digit_char (dt_second d div 10), digit_char (dt_second d)]"
  by (simp add: strftime_time_format_tail str_nat_4 valid_datetime_def)

lemma strftime_time_format_YmdHMS:
  "valid_datetime d \<Longrightarrow> 1000 \<le> dt_year d \<Longrightarrow> is_YmdHMS (strftime_time_format d)"
  by (simp add: strftime_time_format_shape is_YmdHMS_def is_digit_digit_char)

section \<open>Joined lines\<close>

lemma join_Cons: "ys \<noteq> [] \<Longrightarrow> join sep (x # ys) = x @ sep @ join sep ys"
  by (cases ys) simp_all

lemma join_terminated: "join sep (xs @ ['''']) = concat (map (\<lambda>l. l @ sep) xs)"
  by (induction xs) (simp_all add: join_Cons)

section \<open>The whole response\<close>

lemma service_step_block:
  assumes "service_step lt resp svc = Inr r"
  shows "r = resp @ service_block lt svc"
proof -
  from service_step_Inr [OF assms] obtain ty where
    ty: "s_health_check_conf svc ''type'' = Some ty" and
    r: "r = resp @ service_line svc #
              map (\<lambda>i. instance_line i @ health_suffix lt (ty \<noteq> PyNone) i) (s_instances svc)"
    by blast
  from ty have "healthcheck_enabled svc = (ty \<noteq> PyNone)"
    by (simp add: healthcheck_enabled_def)
  with r show ?thesis by (simp add: service_block_def)
qed

lemma services_loop_Inr:
  "services_loop lt resp svcs = Inr r \<Longrightarrow> r = resp @ concat (map (service_block lt) svcs)"
proof (induction svcs arbitrary: resp)
  case Nil
  then show ?case by simp
next
  case (Cons svc svcs)
  from Cons.prems obtain r1 where
    r1: "service_step lt resp svc = Inr r1" and rest: "services_loop lt r1 svcs = Inr r"
    by (auto split: sum.splits)
  from Cons.IH [OF rest] service_step_block [OF r1] show ?case by simp
qed

lemma render_Inr:
  assumes "render lt svcs = Inr bytes"
  shows "bytes = encode_utf8 (concat (map (\<lambda>l. l @ [CHR 0x0A])
                                  (concat (map (service_block lt) svcs))))"
proof -
  from assms obtain r where r: "services_loop lt [] svcs = Inr r"
    and b: "bytes = encode_utf8 (join [CHR 0x0A] (r @ ['''']))"
    by (auto simp: render_def split: sum.splits)
  from services_loop_Inr [OF r] b show ?thesis by (simp add: join_terminated)
qed

section \<open>Service lines\<close>

lemma utc_1462100702:
  "utc_localtime 1462100702 = Inr \<lparr>dt_year = 2016, dt_month = 5, dt_day = 1,
      dt_hour = 11, dt_minute = 5, dt_second = 2\<rparr>"
  by code_simp

lemma render_offline_service:
  "render utc_localtime [offline_service] =
     Inr (encode_utf8 (''abc.onion [not uploaded]'' @ [CHR 0x0A] @
                       ''  def.onion [offline] [up at 11:05:02]'' @ [CHR 0x0A]))"
  by code_simp

text \<open>
  C5, amended. Whenever the rendering succeeds, the bytes written are the encoding
  of the lines, each followed by a newline, and the lines are, service by service in
  the order of \<^verbatim>\<open>config.services\<close>: one line
  \<^verbatim>\<open><address>.onion <timestamp-or-marker>\<close>, then the lines of the service's
  instances. The marker \<^verbatim>\<open>[not uploaded]\<close> stands where the service has no upload
  time; otherwise the stored \<^verbatim>\<open>datetime\<close> is formatted. For every valid
  \<^verbatim>\<open>datetime\<close> that text is the year in decimal, without padding, followed by
  \<^verbatim>\<open>-MM-DD HH:MM:SS\<close>; for the years 1000 to 9999 it is exactly
  \<^verbatim>\<open>YYYY-MM-DD HH:MM:SS\<close>, the decimal digits of the fields with the separators in
  place.
\<close>

theorem service_lines_rendered:
  assumes "render localtime svcs = Inr bytes"
  shows "bytes = encode_utf8 (concat (map (\<lambda>l. l @ [CHR 0x0A])
           (concat (map (\<lambda>svc.
              (s_onion_address svc @ ''.onion '' @
                 (case s_uploaded svc of
                    None \<Rightarrow> ''[not uploaded]''
                  | Some up \<Rightarrow> strftime_time_format up)) #
              map (\<lambda>i. instance_line i @ health_suffix localtime (healthcheck_enabled svc) i)
                (s_instances svc)) svcs)))) \<and>
         (\<forall>up. valid_datetime up \<longrightarrow>
            strftime_time_format up =
              str_nat (dt_year up) @
              [CHR ''-'', digit_char (dt_month up div 10), digit_char (dt_month up), CHR ''-'',
               digit_char (dt_day up div 10), digit_char (dt_day up), CHR '' '',
               digit_char (dt_hour up div 10), digit_char (dt_hour up), CHR '':'',
               digit_char (dt_minute up div 10), digit_char (dt_minute up), CHR '':'',
               digit_char (dt_second up div 10), digit_char (dt_second up)]) \<and>
         (\<forall>up. valid_datetime up \<and> 1000 \<le> dt_year up \<longrightarrow>
            is_YmdHMS (strftime_time_format up) \<and>
            strftime_time_format up =
              [digit_char (dt_year up div 1000), digit_char (dt_year up div 100),
               digit_char (dt_year up div 10), digit_char (dt_year up), CHR ''-'',
               digit_char (dt_month up div 10), digit_char (dt_month up), CHR ''-'',
               digit_char (dt_day up div 10), digit_char (dt_day up), CHR '' '',
               digit_char (dt_hour up div 10), digit_char (dt_hour up), CHR '':'',
               digit_char (dt_minute up div 10), digit_char (dt_minute up), CHR '':'',
               digit_char (dt_second up div 10), digit_char (dt_second up)])"
proof -
  have "service_block localtime = (\<lambda>svc.
              (s_onion_address svc @ ''.onion '' @
                 (case s_uploaded svc of
                    None \<Rightarrow> ''[not uploaded]''
                  | Some up \<Rightarrow> strftime_time_format up)) #
              map (\<lambda>i. instance_line i @ health_suffix localtime (healthcheck_enabled svc) i)
                (s_instances svc))"
    by (rule ext) (simp add: service_block_def service_line_def)
  with render_Inr [OF assms] have 1: "bytes = encode_utf8 (concat (map (\<lambda>l. l @ [CHR 0x0A])
           (concat (map (\<lambda>svc.
              (s_onion_address svc @ ''.onion '' @
                 (case s_uploaded svc of
                    None \<Rightarrow> ''[not uploaded]''
                  | Some up \<Rightarrow> strftime_time_format up)) #
              map (\<lambda>i. instance_line i @ health_suffix localtime (healthcheck_enabled svc) i)
                (s_instances svc)) svcs))))"
    by simp
  have 2: "\<forall>up. valid_datetime up \<longrightarrow>
            strftime_time_format up =
              str_nat (dt_year up) @
              [CHR ''-'', digit_char (dt_month up div 10), digit_char (dt_month up), CHR ''-'',
               digit_char (dt_day up div 10), digit_char (dt_day up), CHR '' '',
               digit_char (dt_hour up div 10), digit_char (dt_hour up), CHR '':'',
               digit_char (dt_minute up div 10), digit_char (dt_minute up), CHR '':'',
               digit_char (dt_second up div 10), digit_char (dt_second up)]"
    using strftime_time_format_tail by blast
  have 3: "\<forall>up. valid_datetime up \<and> 1000 \<le> dt_year up \<longrightarrow>
            is_YmdHMS (strftime_time_format up) \<and>
            strftime_time_format up =
              [digit_char (dt_year up div 1000), digit_char (dt_year up div 100),
               digit_char (dt_year up div 10), digit_char (dt_year up), CHR ''-'',
               digit_char (dt_month up div 10), digit_char (dt_month up), CHR ''-'',
               digit_char (dt_day up div 10), digit_char (dt_day up), CHR '' '',
               digit_char (dt_hour up div 10), digit_char (dt_hour up), CHR '':'',
               digit_char (dt_minute up div 10), digit_char (dt_minute up), CHR '':'',
               digit_char (dt_second up div 10), digit_char (dt_second up)]"
    using strftime_time_format_shape strftime_time_format_YmdHMS by blast
  from 1 2 3 show ?thesis by blast
qed

text \<open>
  C5, as stated, fails for a year below 1000: the service uploaded at
  \<^verbatim>\<open>datetime(999, 1, 2, 3, 4, 5)\<close> is rendered as
  \<^verbatim>\<open>abc.onion 999-01-02 03:04:05\<close>, and that time stamp does not have the form
  \<^verbatim>\<open>YYYY-MM-DD HH:MM:SS\<close>.
\<close>

theorem early_service_year_not_padded:
  "render utc_localtime [early_service] =
     Inr (encode_utf8 (''abc.onion 999-01-02 03:04:05'' @ [CHR 0x0A])) \<and>
   s_uploaded early_service =
     Some \<lparr>dt_year = 999, dt_month = 1, dt_day = 2,
           dt_hour = 3, dt_minute = 4, dt_second = 5\<rparr> \<and>
   valid_datetime \<lparr>dt_year = 999, dt_month = 1, dt_day = 2,
                   dt_hour = 3, dt_minute = 4, dt_second = 5\<rparr> \<and>
   strftime_time_format \<lparr>dt_year = 999, dt_month = 1, dt_day = 2,
                         dt_hour = 3, dt_minute = 4, dt_second = 5\<rparr> =
     ''999-01-02 03:04:05'' \<and>
   \<not> is_YmdHMS ''999-01-02 03:04:05''"
proof -
  have "render utc_localtime [early_service] =
     Inr (encode_utf8 (''abc.onion 999-01-02 03:04:05'' @ [CHR 0x0A]))"
    by code_simp
  moreover have "s_uploaded early_service =
     Some \<lparr>dt_year = 999, dt_month = 1, dt_day = 2,
           dt_hour = 3, dt_minute = 4, dt_second = 5\<rparr>"
    by (simp add: early_service_def)
  moreover have "valid_datetime \<lparr>dt_year = 999, dt_month = 1, dt_day = 2,
                   dt_hour = 3, dt_minute = 4, dt_second = 5\<rparr>"
    by (simp add: valid_datetime_def)
  moreover have "strftime_time_format \<lparr>dt_year = 999, dt_month = 1, dt_day = 2,
                         dt_hour = 3, dt_minute = 4, dt_second = 5\<rparr> =
     ''999-01-02 03:04:05''"
    by code_simp
  moreover have "\<not> is_YmdHMS ''999-01-02 03:04:05''"
    by (simp add: is_YmdHMS_def)
  ultimately show ?thesis by blast
qed

text \<open>
  C5, amended, on the sample clock: an uploaded service and one that was never
  uploaded are rendered, and the time stamp of a \<^verbatim>\<open>datetime\<close> of the year 2016 is
  read off.
\<close>

theorem service_lines_rendered_witness:
  "render utc_localtime [scenario_service no_check_conf [] 0, offline_service] =
     Inr (encode_utf8 (''abc.onion 2016-05-01 11:08:56'' @ [CHR 0x0A] @
                       ''  def.onion 2016-05-01 11:00:00 0 IPs'' @ [CHR 0x0A] @
                       ''abc.onion [not uploaded]'' @ [CHR 0x0A] @
                       ''  def.onion [offline] [up at 11:05:02]'' @ [CHR 0x0A])) \<and>
   valid_datetime sample_datetime \<and> 1000 \<le> dt_year sample_datetime \<and>
   strftime_time_format sample_datetime = ''2016-05-01 11:05:02'' \<and>
   is_YmdHMS (strftime_time_format sample_datetime)"
proof -
  have h: "render utc_localtime [scenario_service no_check_conf [] 0, offline_service] =
     Inr (encode_utf8 (''abc.onion 2016-05-01 11:08:56'' @ [CHR 0x0A] @
                       ''  def.onion 2016-05-01 11:00:00 0 IPs'' @ [CHR 0x0A] @
                       ''abc.onion [not uploaded]'' @ [CHR 0x0A] @
                       ''  def.onion [offline] [up at 11:05:02]'' @ [CHR 0x0A]))"
    by code_simp
  have v: "valid_datetime sample_datetime" "1000 \<le> dt_year sample_datetime"
    by (simp_all add: sample_datetime_def valid_datetime_def)
  from service_lines_rendered [OF h] v
  have y: "is_YmdHMS (strftime_time_format sample_datetime)" and
    "strftime_time_format sample_datetime =
              [digit_char (dt_year sample_datetime div 1000),
               digit_char (dt_year sample_datetime div 100),
               digit_char (dt_year sample_datetime div 10),
               digit_char (dt_year sample_datetime), CHR ''-'',
               digit_char (dt_month sample_datetime div 10),
               digit_char (dt_month sample_datetime), CHR ''-'',
               digit_char (dt_day sample_datetime div 10),
               digit_char (dt_day sample_datetime), CHR '' '',
               digit_char (dt_hour sample_datetime div 10),
               digit_char (dt_hour sample_datetime), CHR '':'',
               digit_char (dt_minute sample_datetime div 10),
               digit_char (dt_minute sample_datetime), CHR '':'',
               digit_char (dt_second sample_datetime div 10),
               digit_char (dt_second sample_datetime)]"
    by blast+
  then have "strftime_time_format sample_datetime = ''2016-05-01 11:05:02''"
    by (simp add: sample_datetime_def digit_char_def)
  with h v y show ?thesis by blast
qed

section \<open>The documented scenario\<close>

text \<open>
  C6. The documented scenario: on every platform that converts the last-check epoch
  to a local time of 11:05:02, with three introduction points and any configured
  health-check kind, the response holds exactly the lines \<^verbatim>\<open>abc.onion 2016-05-01 11:08:56\<close> and
  \<^verbatim>\<open>  def.onion 2016-05-01 11:00:00 3 IPs [up at 11:05:02]\<close>, and the bytes written
  are these two lines, each ended by a newline.
\<close>

theorem scenario_two_lines:
  assumes "localtime t = Inr d"
    and "dt_hour d = 11" and "dt_minute d = 5" and "dt_second d = 2"
    and "length ips = 3"
    and "conf ''type'' = Some kind" and "kind \<noteq> PyNone"
  shows "services_loop localtime [] [scenario_service conf ips t] =
           Inr [''abc.onion 2016-05-01 11:08:56'',
                ''  def.onion 2016-05-01 11:00:00 3 IPs [up at 11:05:02]''] \<and>
         render localtime [scenario_service conf ips t] =
           Inr (encode_utf8 (''abc.onion 2016-05-01 11:08:56'' @ [CHR 0x0A] @
                  ''  def.onion 2016-05-01 11:00:00 3 IPs [up at 11:05:02]'' @ [CHR 0x0A]))"
proof -
  have up: "strftime_time_format \<lparr>dt_year = 2016, dt_month = 5, dt_day = 1,
               dt_hour = 11, dt_minute = 8, dt_second = 56\<rparr> = ''2016-05-01 11:08:56''"
    by code_simp
  have ts: "strftime_time_format \<lparr>dt_year = 2016, dt_month = 5, dt_day = 1,
               dt_hour = 11, dt_minute = 0, dt_second = 0\<rparr> = ''2016-05-01 11:00:00''"
    by code_simp
  from assms(2-4) have hms: "strftime_HMS d = ''11:05:02''"
    by (simp add: strftime_HMS_shape digit_char_def)
  from assms(5) have n: "str_nat (length ips) = ''3''"
    by (simp add: str_nat_1 digit_char_def)
  have step: "instance_step localtime True [''abc.onion 2016-05-01 11:08:56'']
                 (hd (s_instances (scenario_service conf ips t))) =
              Inr [''abc.onion 2016-05-01 11:08:56'',
                   ''  def.onion 2016-05-01 11:00:00 3 IPs [up at 11:05:02]'']"
    using assms(1)
    by (simp add: instance_step_def scenario_service_def ts n hms fromtimestamp_def
                  append_to_last_def del: One_nat_def)
  have loop: "services_loop localtime [] [scenario_service conf ips t] =
           Inr [''abc.onion 2016-05-01 11:08:56'',
                ''  def.onion 2016-05-01 11:00:00 3 IPs [up at 11:05:02]'']"
    using step assms(6,7)
    by (simp add: service_step_def scenario_service_def up del: One_nat_def)
  then show ?thesis
    by (simp add: render_def)
qed

text \<open>C6 on the sample clock, where the epoch 1462100702 is 11:05:02.\<close>

theorem scenario_two_lines_witness:
  "utc_localtime 1462100702 = Inr sample_datetime \<and>
   dt_hour sample_datetime = 11 \<and> dt_minute sample_datetime = 5 \<and>
   dt_second sample_datetime = 2 \<and>
   length [''ip1'', ''ip2'', ''ip3''] = 3 \<and>
   tcp_conf ''type'' = Some (PyStr ''tcp'') \<and> PyStr ''tcp'' \<noteq> PyNone \<and>
   services_loop utc_localtime [] [scenario_service tcp_conf [''ip1'', ''ip2'', ''ip3''] 1462100702] =
     Inr [''abc.onion 2016-05-01 11:08:56'',
          ''  def.onion 2016-05-01 11:00:00 3 IPs [up at 11:05:02]'']"
proof -
  have u: "utc_localtime 1462100702 = Inr sample_datetime"
    by (simp add: utc_1462100702 sample_datetime_def)
  have h: "dt_hour sample_datetime = 11" "dt_minute sample_datetime = 5"
     "dt_second sample_datetime = 2"
    by (simp_all add: sample_datetime_def)
  have l: "length [''ip1'', ''ip2'', ''ip3''] = 3" by simp
  have c: "tcp_conf ''type'' = Some (PyStr ''tcp'')" by (simp add: tcp_conf_def)
  have k: "PyStr ''tcp'' \<noteq> PyNone" by simp
  from scenario_two_lines [where localtime = utc_localtime and t = 1462100702
      and d = sample_datetime and conf = tcp_conf
      and ips = "[''ip1'', ''ip2'', ''ip3'']" and kind = "PyStr ''tcp''", OF u h l c k] u h l c k
  show ?thesis by blast
qed

section \<open>The line of an instance\<close>

lemma fromtimestamp_Inr:
  "fromtimestamp lt x = Inr d \<longleftrightarrow> (\<exists>t. x = Some t \<and> lt t = Inr d)"
  by (cases x) (simp_all add: fromtimestamp_def)

lemma service_step_nth:
  assumes "service_step lt resp svc = Inr r" and "k < length (s_instances svc)"
  shows "\<exists>ty. s_health_check_conf svc ''type'' = Some ty \<and>
           r ! (length resp + 1 + k) =
             instance_line (s_instances svc ! k) @
               health_suffix lt (ty \<noteq> PyNone) (s_instances svc ! k) \<and>
           (ty \<noteq> PyNone \<and> i_is_healthy (s_instances svc ! k) \<noteq> None \<longrightarrow>
              (\<exists>t d. i_last_check_time (s_instances svc ! k) = Some t \<and> lt t = Inr d))"
proof -
  from service_step_Inr [OF assms(1)] obtain ty where
    ty: "s_health_check_conf svc ''type'' = Some ty" and
    r: "r = resp @ service_line svc #
              map (\<lambda>i. instance_line i @ health_suffix lt (ty \<noteq> PyNone) i) (s_instances svc)" and
    ok: "\<forall>i \<in> set (s_instances svc).
              ty \<noteq> PyNone \<and> i_is_healthy i \<noteq> None \<longrightarrow>
                (\<exists>d. fromtimestamp lt (i_last_check_time i) = Inr d)"
    by blast
  from r assms(2) have
    "r ! (length resp + 1 + k) =
       instance_line (s_instances svc ! k) @ health_suffix lt (ty \<noteq> PyNone) (s_instances svc ! k)"
    by (simp add: nth_append)
  moreover from ok assms(2) have
    "ty \<noteq> PyNone \<and> i_is_healthy (s_instances svc ! k) \<noteq> None \<longrightarrow>
       (\<exists>d. fromtimestamp lt (i_last_check_time (s_instances svc ! k)) = Inr d)"
    using nth_mem by blast
  then have
    "ty \<noteq> PyNone \<and> i_is_healthy (s_instances svc ! k) \<noteq> None \<longrightarrow>
       (\<exists>t d. i_last_check_time (s_instances svc ! k) = Some t \<and> lt t = Inr d)"
    by (auto simp: fromtimestamp_Inr)
  ultimately show ?thesis using ty by blast
qed

lemma health_suffix_known:
  "hc \<Longrightarrow> i_is_healthy i \<noteq> None \<Longrightarrow> i_last_check_time i = Some t \<Longrightarrow> lt t = Inr d \<Longrightarrow>
   health_suffix lt hc i =
     (if i_is_healthy i = Some True then '' [up at '' else '' [down at '')
       @ strftime_HMS d @ '']''"
  by (cases "i_is_healthy i") (auto simp: health_suffix_def fromtimestamp_def)

lemma health_suffix_none:
  "\<not> (hc \<and> i_is_healthy i \<noteq> None) \<Longrightarrow> health_suffix lt hc i = []"
  by (cases hc; cases "i_is_healthy i")
     (auto simp: health_suffix_def split: sum.splits bool.splits)



lemma offline_suffix: "suffix ''[offline]'' (''  '' @ a @ ''.onion [offline]'')"
proof -
  have "''  '' @ a @ ''.onion [offline]'' = (''  '' @ a @ ''.onion '') @ ''[offline]''"
    by simp
  then show ?thesis by (rule suffixI)
qed

text \<open>
  C3, amended. The line of an instance without a refresh time is
  \<^verbatim>\<open>  <address>.onion [offline]\<close>, with no count of introduction points. It ends
  there, in \<^verbatim>\<open>[offline]\<close>, when the health-check kind of the service is \<^verbatim>\<open>None\<close>
  or the health status is unknown; otherwise the health suffix follows it.
\<close>

theorem offline_instance_line:
  assumes "service_step localtime response svc = Inr r"
    and "k < length (s_instances svc)"
    and "i_timestamp (s_instances svc ! k) = None"
  shows "(let inst = s_instances svc ! k; line = r ! (length response + 1 + k);
              offline = ''  '' @ i_onion_address inst @ ''.onion [offline]''
          in if s_health_check_conf svc ''type'' = Some PyNone \<or> i_is_healthy inst = None
             then line = offline \<and> suffix ''[offline]'' line
             else \<exists>t d. i_last_check_time inst = Some t \<and> localtime t = Inr d \<and>
                    line = offline @
                      (if i_is_healthy inst = Some True then '' [up at '' else '' [down at '')
                      @ strftime_HMS d @ '']'')"
proof -
  from service_step_nth [OF assms(1,2)] obtain ty where
    ty: "s_health_check_conf svc ''type'' = Some ty" and
    line: "r ! (length response + 1 + k) =
             instance_line (s_instances svc ! k) @
               health_suffix localtime (ty \<noteq> PyNone) (s_instances svc ! k)" and
    ok: "ty \<noteq> PyNone \<and> i_is_healthy (s_instances svc ! k) \<noteq> None \<longrightarrow>
           (\<exists>t d. i_last_check_time (s_instances svc ! k) = Some t \<and> localtime t = Inr d)"
    by blast
  from assms(3) have base: "instance_line (s_instances svc ! k) =
      ''  '' @ i_onion_address (s_instances svc ! k) @ ''.onion [offline]''"
    by (simp add: instance_line_def)
  show ?thesis
  proof (cases "ty \<noteq> PyNone \<and> i_is_healthy (s_instances svc ! k) \<noteq> None")
    case True
    with ok obtain t d where t: "i_last_check_time (s_instances svc ! k) = Some t"
      and d: "localtime t = Inr d" by blast
    from True t d have "health_suffix localtime (ty \<noteq> PyNone) (s_instances svc ! k) =
        (if i_is_healthy (s_instances svc ! k) = Some True then '' [up at '' else '' [down at '')
          @ strftime_HMS d @ '']''"
      by (intro health_suffix_known) simp_all
    with True line ty base t d show ?thesis
      by (simp add: Let_def)
  next
    case False
    then have "health_suffix localtime (ty \<noteq> PyNone) (s_instances svc ! k) = []"
      by (rule health_suffix_none)
    with line base have l: "r ! (length response + 1 + k) =
        ''  '' @ i_onion_address (s_instances svc ! k) @ ''.onion [offline]''"
      by simp
    have "suffix ''[offline]'' (r ! (length response + 1 + k))"
      unfolding l by (rule offline_suffix)
    with l False ty show ?thesis
      by (auto simp: Let_def)
  qed
qed

text \<open>
  C3, as stated, fails: an offline instance of a service with health checks
  configured, whose status is healthy, is rendered with the health suffix, and its
  line does not end in \<^verbatim>\<open>[offline]\<close>.
\<close>

theorem offline_instance_with_health_suffix:
  "service_step utc_localtime [] offline_service =
     Inr [''abc.onion [not uploaded]'', ''  def.onion [offline] [up at 11:05:02]''] \<and>
   i_timestamp (s_instances offline_service ! 0) = None \<and>
   \<not> suffix ''[offline]'' ''  def.onion [offline] [up at 11:05:02]''"
proof -
  have "service_step utc_localtime [] offline_service =
     Inr [''abc.onion [not uploaded]'', ''  def.onion [offline] [up at 11:05:02]'']"
    by code_simp
  moreover have "i_timestamp (s_instances offline_service ! 0) = None"
    by (simp add: offline_service_def offline_healthy_instance_def)
  moreover have "\<not> suffix ''[offline]'' ''  def.onion [offline] [up at 11:05:02]''"
    by (simp add: suffix_to_prefix)
  ultimately show ?thesis by blast
qed

text \<open>C3, amended, on an offline instance of a service without health checks.\<close>

theorem offline_instance_line_witness:
  "service_step utc_localtime [] offline_unchecked_service =
     Inr [''abc.onion [not uploaded]'', ''  def.onion [offline]''] \<and>
   0 < length (s_instances offline_unchecked_service) \<and>
   i_timestamp (s_instances offline_unchecked_service ! 0) = None \<and>
   suffix ''[offline]'' ([''abc.onion [not uploaded]'', ''  def.onion [offline]''] ! 1)"
proof -
  have h: "service_step utc_localtime [] offline_unchecked_service =
     Inr [''abc.onion [not uploaded]'', ''  def.onion [offline]'']"
    by code_simp
  have k: "0 < length (s_instances offline_unchecked_service)"
    by (simp add: offline_unchecked_service_def)
  have n: "i_timestamp (s_instances offline_unchecked_service ! 0) = None"
    by (simp add: offline_unchecked_service_def offline_healthy_instance_def)
  have c: "s_health_check_conf offline_unchecked_service ''type'' = Some PyNone"
    by (simp add: offline_unchecked_service_def no_check_conf_def)
  from offline_instance_line [OF h k n] c
  have "suffix ''[offline]'' ([''abc.onion [not uploaded]'', ''  def.onion [offline]''] ! 1)"
    by (simp add: Let_def)
  with h k n show ?thesis by blast
qed

section \<open>Rendering twice\<close>

lemma send_status_services: "hs_services (snd (send_status lt sendall st)) = hs_services st"
  by (simp add: send_status_def split: sum.splits prod.splits option.splits)

lemma send_status_log: "hs_log (snd (send_status lt sendall st)) = hs_log st"
  by (simp add: send_status_def split: sum.splits prod.splits option.splits)

text \<open>
  C7. Two calls of \<^verbatim>\<open>send_status\<close> in a row, on any connection: the first leaves
  \<^verbatim>\<open>config.services\<close> as it was, so the second renders the same snapshot; both fail
  with the same exception and write nothing, or both hand the same bytes to
  \<^verbatim>\<open>sendall\<close>. The platform's local-time conversion is the same in both calls.
\<close>

theorem send_status_twice_same_bytes:
  assumes "send_status localtime sendall st = (r1, st1)"
    and "send_status localtime sendall st1 = (r2, st2)"
  shows "hs_services st1 = hs_services st \<and> hs_services st2 = hs_services st \<and>
         render localtime (hs_services st1) = render localtime (hs_services st) \<and>
         (case render localtime (hs_services st) of
            Inl e \<Rightarrow> r1 = Inl e \<and> r2 = Inl e \<and> st1 = st \<and> st2 = st
          | Inr data \<Rightarrow>
              hs_request st1 = snd (sendall data (hs_request st)) \<and>
              hs_request st2 = snd (sendall data (hs_request st1)))"
proof -
  from assms(1) have s1: "hs_services st1 = hs_services st"
    using send_status_services [of localtime sendall st] by simp
  from assms(2) have s2: "hs_services st2 = hs_services st1"
    using send_status_services [of localtime sendall st1] by simp
  show ?thesis
  proof (cases "render localtime (hs_services st)")
    case (Inl e)
    then have a: "send_status localtime sendall st = (Inl e, st)"
      by (simp add: send_status_def)
    with assms(1) have b: "r1 = Inl e" "st1 = st" by simp_all
    with a assms(2) have "r2 = Inl e" "st2 = st" by simp_all
    with b Inl show ?thesis by simp
  next
    case (Inr data)
    then have a: "snd (send_status localtime sendall st) =
        st\<lparr>hs_request := snd (sendall data (hs_request st))\<rparr>"
      by (simp add: send_status_def split: prod.splits option.splits)
    with assms(1) have b: "st1 = st\<lparr>hs_request := snd (sendall data (hs_request st))\<rparr>"
      by simp
    from Inr s1 have "render localtime (hs_services st1) = Inr data" by simp
    then have "snd (send_status localtime sendall st1) =
        st1\<lparr>hs_request := snd (sendall data (hs_request st1))\<rparr>"
      by (simp add: send_status_def split: prod.splits option.splits)
    with assms(2) have c: "st2 = st1\<lparr>hs_request := snd (sendall data (hs_request st1))\<rparr>"
      by simp
    from b have b': "hs_request st1 = snd (sendall data (hs_request st))" by simp
    from c have c': "hs_request st2 = snd (sendall data (hs_request st1))" by simp
    from Inr s1 s2 b' c' show ?thesis by simp
  qed
qed

text \<open>C7 on a connection that records what is written: the same bytes arrive twice.\<close>

theorem send_status_twice_same_bytes_witness:
  "send_status utc_localtime recording_sendall (sample_handler_state [offline_service]) =
     (Inr (), (sample_handler_state [offline_service])
        \<lparr>hs_request := encode_utf8 (''abc.onion [not uploaded]'' @ [CHR 0x0A] @
                       ''  def.onion [offline] [up at 11:05:02]'' @ [CHR 0x0A])\<rparr>) \<and>
   send_status utc_localtime recording_sendall
     ((sample_handler_state [offline_service])
        \<lparr>hs_request := encode_utf8 (''abc.onion [not uploaded]'' @ [CHR 0x0A] @
                       ''  def.onion [offline] [up at 11:05:02]'' @ [CHR 0x0A])\<rparr>) =
     (Inr (), (sample_handler_state [offline_service])
        \<lparr>hs_request := encode_utf8 (''abc.onion [not uploaded]'' @ [CHR 0x0A] @
                       ''  def.onion [offline] [up at 11:05:02]'' @ [CHR 0x0A]) @
                      encode_utf8 (''abc.onion [not uploaded]'' @ [CHR 0x0A] @
                       ''  def.onion [offline] [up at 11:05:02]'' @ [CHR 0x0A])\<rparr>) \<and>
   render utc_localtime
     (hs_services ((sample_handler_state [offline_service])
        \<lparr>hs_request := encode_utf8 (''abc.onion [not uploaded]'' @ [CHR 0x0A] @
                       ''  def.onion [offline] [up at 11:05:02]'' @ [CHR 0x0A])\<rparr>)) =
     render utc_localtime (hs_services (sample_handler_state [offline_service]))"
proof -
  have h1: "send_status utc_localtime recording_sendall (sample_handler_state [offline_service]) =
     (Inr (), (sample_handler_state [offline_service])
        \<lparr>hs_request := encode_utf8 (''abc.onion [not uploaded]'' @ [CHR 0x0A] @
                       ''  def.onion [offline] [up at 11:05:02]'' @ [CHR 0x0A])\<rparr>)"
    by (simp add: send_status_def sample_handler_state_def render_offline_service
                  recording_sendall_def)
  have h2: "send_status utc_localtime recording_sendall
     ((sample_handler_state [offline_service])
        \<lparr>hs_request := encode_utf8 (''abc.onion [not uploaded]'' @ [CHR 0x0A] @
                       ''  def.onion [offline] [up at 11:05:02]'' @ [CHR 0x0A])\<rparr>) =
     (Inr (), (sample_handler_state [offline_service])
        \<lparr>hs_request := encode_utf8 (''abc.onion [not uploaded]'' @ [CHR 0x0A] @
                       ''  def.onion [offline] [up at 11:05:02]'' @ [CHR 0x0A]) @
                      encode_utf8 (''abc.onion [not uploaded]'' @ [CHR 0x0A] @
                       ''  def.onion [offline] [up at 11:05:02]'' @ [CHR 0x0A])\<rparr>)"
    by (simp add: send_status_def sample_handler_state_def render_offline_service
                  recording_sendall_def)
  from send_status_twice_same_bytes [OF h1 h2] h1 h2 show ?thesis by blast
qed

section \<open>Faults in a connection\<close>

text \<open>Every exception of the model is caught by \<^verbatim>\<open>except Exception\<close>.\<close>

lemma is_Exception_all: "is_Exception e"
  by (cases e) simp_all

text \<open>
  C8. \<^verbatim>\<open>handle\<close> returns normally for every snapshot, clock and connection. When
  \<^verbatim>\<open>send_status\<close> raises, while rendering or while writing, the exception is logged
  as one warning and the handler's state is otherwise what \<^verbatim>\<open>send_status\<close> left.
\<close>

theorem handle_never_raises:
  "fst (handle localtime sendall st) = Inr () \<and>
   (case send_status localtime sendall st of
      (Inr u, st') \<Rightarrow> handle localtime sendall st = (Inr (), st')
    | (Inl e, st') \<Rightarrow>
        handle localtime sendall st =
          (Inr (), st'\<lparr>hs_log := hs_log st @
                         [LogRecord WARNING ''Error returning status: %s'' [ArgExn e]]\<rparr>))"
proof (cases "send_status localtime sendall st")
  case (Pair r st')
  from Pair have "hs_log st' = hs_log st"
    using send_status_log [of localtime sendall st] by simp
  with Pair show ?thesis
    by (cases r) (simp_all add: handle_def is_Exception_all)
qed

text \<open>
  C8 on a connection whose peer has gone (the write raises) and on a snapshot whose
  rendering raises \<^verbatim>\<open>KeyError\<close>.
\<close>

theorem handle_never_raises_witness:
  "handle utc_localtime broken_sendall (sample_handler_state [offline_service]) =
     (Inr (), (sample_handler_state [offline_service])
        \<lparr>hs_log := [LogRecord WARNING ''Error returning status: %s''
                       [ArgExn (OSError EPIPE)]]\<rparr>) \<and>
   handle utc_localtime recording_sendall (sample_handler_state [malformed_service]) =
     (Inr (), (sample_handler_state [malformed_service])
        \<lparr>hs_log := [LogRecord WARNING ''Error returning status: %s''
                       [ArgExn (KeyError ''type'')]]\<rparr>)"
proof -
  have s1: "send_status utc_localtime broken_sendall (sample_handler_state [offline_service]) =
              (Inl (OSError EPIPE), sample_handler_state [offline_service])"
    by (simp add: send_status_def sample_handler_state_def render_offline_service
                  broken_sendall_def)
  have "render utc_localtime [malformed_service] = Inl (KeyError ''type'')"
    by (simp add: render_def service_step_def malformed_service_def)
  then have s2: "send_status utc_localtime recording_sendall
                   (sample_handler_state [malformed_service]) =
              (Inl (KeyError ''type''), sample_handler_state [malformed_service])"
    by (simp add: send_status_def sample_handler_state_def)
  from handle_never_raises [of utc_localtime broken_sendall
         "sample_handler_state [offline_service]"] s1
  have a: "handle utc_localtime broken_sendall (sample_handler_state [offline_service]) =
     (Inr (), (sample_handler_state [offline_service])
        \<lparr>hs_log := [LogRecord WARNING ''Error returning status: %s''
                       [ArgExn (OSError EPIPE)]]\<rparr>)"
    by (simp add: sample_handler_state_def)
  from handle_never_raises [of utc_localtime recording_sendall
         "sample_handler_state [malformed_service]"] s2
  have b: "handle utc_localtime recording_sendall (sample_handler_state [malformed_service]) =
     (Inr (), (sample_handler_state [malformed_service])
        \<lparr>hs_log := [LogRecord WARNING ''Error returning status: %s''
                       [ArgExn (KeyError ''type'')]]\<rparr>)"
    by (simp add: sample_handler_state_def)
  from a b show ?thesis by blast
qed

section \<open>Construction of the server\<close>

text \<open>
  Whenever the removal of the stale file succeeds and the bind fails, the handler of
  the \<^verbatim>\<open>except\<close> clause raises \<^verbatim>\<open>NameError\<close>: no error is logged, and the
  exception leaves the constructor.
\<close>

lemma init_bind_failure:
  assumes "cleanup_socket_file os \<lparr>unix_socket_filename = STATUS_SOCKET_LOCATION config,
              server = None\<rparr> st = (Inr (), st1)"
    and "server_bind os (STATUS_SOCKET_LOCATION config) (sys_os st1) = (Some errno, w)"
  shows "init os config st =
           (Inl (NameError ''status_socket_location''),
            \<lparr>sys_os = w,
             sys_log = sys_log st1 @ [LogRecord DEBUG ''Creating status socket at %s''
                                        [ArgStr (STATUS_SOCKET_LOCATION config)]]\<rparr>)"
  using assms
  by (simp add: init_def init_try_def load_name_def names_in_scope_def Let_def)

text \<open>
  C1. The claim is that a failed bind is logged and the constructor returns. On the
  sample file system, with the socket path \<^verbatim>\<open>/nonexistent/control\<close> whose directory
  does not exist, the bind fails with \<^verbatim>\<open>ENOENT\<close> and the constructor raises
  \<^verbatim>\<open>NameError\<close> for the name \<^verbatim>\<open>status_socket_location\<close>; the log holds the debug
  record only.
\<close>

theorem init_bind_failure_raises_NameError:
  "init sample_os \<lparr>STATUS_SOCKET_LOCATION = ''/nonexistent/control''\<rparr> (sample_sys []) =
     (Inl (NameError ''status_socket_location''),
      \<lparr>sys_os = \<lparr>sw_files = [], sw_dirs = [''/var/run/onionbalance'']\<rparr>,
       sys_log = [LogRecord DEBUG ''Creating status socket at %s''
                    [ArgStr ''/nonexistent/control'']]\<rparr>)"
  by code_simp

text \<open>
  C9. Let \<^verbatim>\<open>os.unlink\<close> of the configured path return \<open>r\<close>. When the file was
  removed or did not exist (\<^verbatim>\<open>ENOENT\<close>), \<^verbatim>\<open>cleanup_socket_file\<close> returns normally and
  the constructor goes on: if the bind succeeds it returns the serving object. Any
  other error leaves \<^verbatim>\<open>cleanup_socket_file\<close> and the constructor as \<^verbatim>\<open>OSError\<close>, with
  nothing bound and nothing logged.
\<close>

theorem stale_socket_file_removal:
  assumes "os_unlink os (STATUS_SOCKET_LOCATION config) (sys_os st) = (r, w)"
  shows "(r = None \<or> r = Some ENOENT \<longrightarrow>
            cleanup_socket_file os
              \<lparr>unix_socket_filename = STATUS_SOCKET_LOCATION config, server = None\<rparr> st =
              (Inr (), st\<lparr>sys_os := w\<rparr>) \<and>
            (\<forall>w'. server_bind os (STATUS_SOCKET_LOCATION config) w = (None, w') \<longrightarrow>
               fst (init os config st) =
                 Inr \<lparr>unix_socket_filename = STATUS_SOCKET_LOCATION config,
                      server = Some \<lparr>srv_address = STATUS_SOCKET_LOCATION config,
                                      srv_serving = True, srv_closed = False\<rparr>\<rparr>)) \<and>
         (\<forall>errno. r = Some errno \<and> errno \<noteq> ENOENT \<longrightarrow>
            cleanup_socket_file os
              \<lparr>unix_socket_filename = STATUS_SOCKET_LOCATION config, server = None\<rparr> st =
              (Inl (OSError errno), st\<lparr>sys_os := w\<rparr>) \<and>
            init os config st = (Inl (OSError errno), st\<lparr>sys_os := w\<rparr>))"
  using assms
  by (auto simp: cleanup_socket_file_def init_def init_try_def Let_def)

text \<open>
  C9 on the sample file system: a stale file that may not be removed stops the
  constructor with \<^verbatim>\<open>EACCES\<close>; with no file at the path the constructor succeeds.
\<close>

theorem stale_socket_file_removal_witness:
  "os_unlink sample_os (STATUS_SOCKET_LOCATION sample_config)
      (sys_os (sample_sys [(''/var/run/onionbalance/control'', False)])) =
     (Some EACCES, sys_os (sample_sys [(''/var/run/onionbalance/control'', False)])) \<and>
   EACCES \<noteq> ENOENT \<and>
   init sample_os sample_config (sample_sys [(''/var/run/onionbalance/control'', False)]) =
     (Inl (OSError EACCES), sample_sys [(''/var/run/onionbalance/control'', False)]) \<and>
   os_unlink sample_os (STATUS_SOCKET_LOCATION sample_config) (sys_os (sample_sys [])) =
     (Some ENOENT, sys_os (sample_sys [])) \<and>
   fst (init sample_os sample_config (sample_sys [])) = Inr sample_status_socket"
proof -
  have u1: "os_unlink sample_os (STATUS_SOCKET_LOCATION sample_config)
      (sys_os (sample_sys [(''/var/run/onionbalance/control'', False)])) =
     (Some EACCES, sys_os (sample_sys [(''/var/run/onionbalance/control'', False)]))"
    by (simp add: sample_os_def sample_unlink_def sample_config_def sample_sys_def)
  have ne: "EACCES \<noteq> ENOENT" by (simp add: EACCES_def ENOENT_def)
  from stale_socket_file_removal [OF u1] ne
  have i1: "init sample_os sample_config (sample_sys [(''/var/run/onionbalance/control'', False)]) =
     (Inl (OSError EACCES), sample_sys [(''/var/run/onionbalance/control'', False)])"
    by (simp add: sample_sys_def)
  have u2: "os_unlink sample_os (STATUS_SOCKET_LOCATION sample_config) (sys_os (sample_sys [])) =
     (Some ENOENT, sys_os (sample_sys []))"
    by (simp add: sample_os_def sample_unlink_def sample_config_def sample_sys_def)
  have b: "server_bind sample_os (STATUS_SOCKET_LOCATION sample_config) (sys_os (sample_sys [])) =
     (None, \<lparr>sw_files = [(''/var/run/onionbalance/control'', True)],
             sw_dirs = [''/var/run/onionbalance'']\<rparr>)"
    by (simp add: sample_os_def sample_bind_def sample_config_def sample_sys_def dirname_def)
  from stale_socket_file_removal [OF u2] b
  have i2: "fst (init sample_os sample_config (sample_sys [])) = Inr sample_status_socket"
    by (simp add: sample_status_socket_def sample_config_def)
  from u1 ne i1 u2 i2 show ?thesis by blast
qed

section \<open>Closing the server\<close>

text \<open>The \<^verbatim>\<open>try\<close> block of \<^verbatim>\<open>close\<close> raises nothing but the two caught classes.\<close>

lemma close_try_raises:
  "fst (close_try os self st) = Inl e \<Longrightarrow> is_AttributeError e \<or> is_OSError e"
  by (auto simp: close_try_def cleanup_socket_file_def Let_def
           split: option.splits prod.splits if_splits)

lemma close_returns: "fst (close os self st) = Inr ()"
proof (cases "close_try os self st")
  case (fields r self' st')
  show ?thesis
  proof (cases r)
    case (Inl e)
    with fields close_try_raises [of os self st e]
    have "is_AttributeError e \<or> is_OSError e" by simp
    with fields Inl show ?thesis by (auto simp: close_def)
  next
    case (Inr u)
    with fields show ?thesis by (simp add: close_def)
  qed
qed

text \<open>
  C10. \<^verbatim>\<open>close\<close> returns normally on every object and every operating system; so
  does a second \<^verbatim>\<open>close\<close> after it. On an object whose \<^verbatim>\<open>server\<close> was never set it
  changes nothing. When the removal of the socket file fails for a reason other than
  \<^verbatim>\<open>ENOENT\<close>, the error is logged and \<^verbatim>\<open>close\<close> still returns, with the server
  stopped and its socket closed.
\<close>

theorem close_never_raises:
  "fst (close os self st) = Inr () \<and>
   (case close os self st of (r, self', st') \<Rightarrow> fst (close os self' st') = Inr ()) \<and>
   (server self = None \<longrightarrow> close os self st = (Inr (), self, st)) \<and>
   (\<forall>srv w errno w'.
      server self = Some srv \<and>
      socket_close os (srv_address srv) (sys_os st) = (None, w) \<and>
      os_unlink os (unix_socket_filename self) w = (Some errno, w') \<and> errno \<noteq> ENOENT \<longrightarrow>
      close os self st =
        (Inr (),
         self\<lparr>server := Some (srv\<lparr>srv_serving := False, srv_closed := True\<rparr>)\<rparr>,
         \<lparr>sys_os = w',
          sys_log = sys_log st @
            [LogRecord ERROR ''Error when removing the status socket''
               [ArgExn (OSError errno)]]\<rparr>))"
proof -
  have 1: "fst (close os self st) = Inr ()" by (rule close_returns)
  have 2: "(case close os self st of (r, self', st') \<Rightarrow> fst (close os self' st') = Inr ())"
    by (simp add: close_returns split: prod.splits)
  have 3: "server self = None \<longrightarrow> close os self st = (Inr (), self, st)"
    by (simp add: close_def close_try_def)
  have 4: "\<forall>srv w errno w'.
      server self = Some srv \<and>
      socket_close os (srv_address srv) (sys_os st) = (None, w) \<and>
      os_unlink os (unix_socket_filename self) w = (Some errno, w') \<and> errno \<noteq> ENOENT \<longrightarrow>
      close os self st =
        (Inr (),
         self\<lparr>server := Some (srv\<lparr>srv_serving := False, srv_closed := True\<rparr>)\<rparr>,
         \<lparr>sys_os = w',
          sys_log = sys_log st @
            [LogRecord ERROR ''Error when removing the status socket''
               [ArgExn (OSError errno)]]\<rparr>)"
    by (simp add: close_def close_try_def cleanup_socket_file_def Let_def)
  from 1 2 3 4 show ?thesis by blast
qed

text \<open>
  C10 on the sample file system: the socket file may not be removed, the error is
  logged, and a second \<^verbatim>\<open>close\<close> returns as well; an object without a server is
  left alone.
\<close>

theorem close_never_raises_witness:
  "close sample_os sample_status_socket
      (sample_sys [(''/var/run/onionbalance/control'', False)]) =
     (Inr (),
      sample_status_socket\<lparr>server := Some \<lparr>srv_address = ''/var/run/onionbalance/control'',
                                             srv_serving = False, srv_closed = True\<rparr>\<rparr>,
      (sample_sys [(''/var/run/onionbalance/control'', False)])
        \<lparr>sys_log := [LogRecord ERROR ''Error when removing the status socket''
                        [ArgExn (OSError EACCES)]]\<rparr>) \<and>
   close sample_os (sample_status_socket\<lparr>server := None\<rparr>) (sample_sys []) =
     (Inr (), sample_status_socket\<lparr>server := None\<rparr>, sample_sys []) \<and>
   fst (close sample_os
          (sample_status_socket\<lparr>server := Some \<lparr>srv_address = ''/var/run/onionbalance/control'',
                                                 srv_serving = False, srv_closed = True\<rparr>\<rparr>)
          ((sample_sys [(''/var/run/onionbalance/control'', False)])
              \<lparr>sys_log := [LogRecord ERROR ''Error when removing the status socket''
                        [ArgExn (OSError EACCES)]]\<rparr>)) = Inr ()"
proof -
  note thm1 = close_never_raises [of sample_os sample_status_socket
      "sample_sys [(''/var/run/onionbalance/control'', False)]"]
  note thm2 = close_never_raises [of sample_os "sample_status_socket\<lparr>server := None\<rparr>"
      "sample_sys []"]
  have srv: "server sample_status_socket =
      Some \<lparr>srv_address = ''/var/run/onionbalance/control'',
            srv_serving = True, srv_closed = False\<rparr>"
    by (simp add: sample_status_socket_def)
  have c: "socket_close sample_os ''/var/run/onionbalance/control''
             (sys_os (sample_sys [(''/var/run/onionbalance/control'', False)])) =
           (None, sys_os (sample_sys [(''/var/run/onionbalance/control'', False)]))"
    by (simp add: sample_os_def sample_close_def)
  have u: "os_unlink sample_os (unix_socket_filename sample_status_socket)
             (sys_os (sample_sys [(''/var/run/onionbalance/control'', False)])) =
           (Some EACCES, sys_os (sample_sys [(''/var/run/onionbalance/control'', False)]))"
    by (simp add: sample_os_def sample_unlink_def sample_status_socket_def sample_sys_def)
  have ne: "EACCES \<noteq> ENOENT" by (simp add: EACCES_def ENOENT_def)
  from thm1 srv c u ne
  have a: "close sample_os sample_status_socket
      (sample_sys [(''/var/run/onionbalance/control'', False)]) =
     (Inr (),
      sample_status_socket\<lparr>server := Some \<lparr>srv_address = ''/var/run/onionbalance/control'',
                                             srv_serving = False, srv_closed = True\<rparr>\<rparr>,
      (sample_sys [(''/var/run/onionbalance/control'', False)])
        \<lparr>sys_log := [LogRecord ERROR ''Error when removing the status socket''
                        [ArgExn (OSError EACCES)]]\<rparr>)"
    by (simp add: sample_sys_def)
  from thm2 have b: "close sample_os (sample_status_socket\<lparr>server := None\<rparr>) (sample_sys []) =
     (Inr (), sample_status_socket\<lparr>server := None\<rparr>, sample_sys [])"
    by simp
  from thm1 a have d: "fst (close sample_os
          (sample_status_socket\<lparr>server := Some \<lparr>srv_address = ''/var/run/onionbalance/control'',
                                                 srv_serving = False, srv_closed = True\<rparr>\<rparr>)
          ((sample_sys [(''/var/run/onionbalance/control'', False)])
              \<lparr>sys_log := [LogRecord ERROR ''Error when removing the status socket''
                        [ArgExn (OSError EACCES)]]\<rparr>)) = Inr ()"
    by simp
  from a b d show ?thesis by blast
qed

end
